theory Spec2Isabelle
  imports Main "HOL-Library.Word"
begin

section \<open>Memory, memory policies and the byte-copy primitive\<close>

text \<open>
  \<^verbatim>\<open>libintx/cuda/api/api.h\<close> declares the two memory policies
  \<^verbatim>\<open>host_memory_t\<close> and \<^verbatim>\<open>device_memory_t\<close> and the copy primitive
  \<^verbatim>\<open>memcpy\<close>; their bodies live in the backend. Sizes are \<^verbatim>\<open>size_t\<close>,
  a 64-bit unsigned integer whose arithmetic wraps. A pointer is an address, \<open>0\<close> is
  \<^verbatim>\<open>nullptr\<close>. Memory is one flat array of bytes shared by host and device
  (unified addressing), so that one copy primitive serves every direction.
\<close>

type_synonym size_t = "64 word"
type_synonym byte = "8 word"
type_synonym addr = nat

datatype memory_t = host_memory_t | device_memory_t

text \<open>
  The exceptions the buffer code can raise: \<^verbatim>\<open>std::runtime_error\<close> with its
  message, and the backend's allocation failure.
\<close>

datatype error = runtime_error string | AllocationFailure

abbreviation CapacityExceeded :: error where
  "CapacityExceeded \<equiv> runtime_error ''cuda::vector::capacity exceeded''"

text \<open>
  The state of the backend: the bytes of memory, the live blocks (base address, owning
  policy and length in bytes), the next unused address, the log of every call of a
  policy's \<^verbatim>\<open>free\<close>, and the requests the backend is willing to serve.
\<close>

record heap =
  mem :: "addr \<Rightarrow> byte"
  live :: "addr \<rightharpoonup> memory_t \<times> nat"
  brk :: addr
  freed :: "(memory_t \<times> addr) list"
  grant :: "memory_t \<Rightarrow> nat \<Rightarrow> bool"

text \<open>
  Modelled from the spec: \<^verbatim>\<open>memory_t::allocate(bytes)\<close>, declared in the header and
  defined in the backend. ``\<^verbatim>\<open>allocate(n)\<close> returns a raw block of at least \<open>n\<close> bytes
  or fails with an AllocationFailure''. The block is new (above every address handed out
  before), never null, and its bytes are whatever memory held there.
\<close>

definition memory_allocate :: "memory_t \<Rightarrow> size_t \<Rightarrow> heap \<Rightarrow> error + addr \<times> heap" where
  "memory_allocate M bytes h =
     (if grant h M (unat bytes)
      then Inr (Suc (brk h),
                h\<lparr>live := (live h)(Suc (brk h) \<mapsto> (M, unat bytes)),
                  brk := Suc (brk h) + unat bytes\<rparr>)
      else Inl AllocationFailure)"

text \<open>
  Modelled from the spec: \<^verbatim>\<open>memory_t::free(ptr)\<close>. ``\<^verbatim>\<open>free\<close> releases a block
  previously returned by the same policy's \<^verbatim>\<open>allocate\<close> and is a no-op on null''.
  Every call is logged with the policy it went through.
\<close>

definition memory_free :: "memory_t \<Rightarrow> addr \<Rightarrow> heap \<Rightarrow> heap" where
  "memory_free M p h =
     h\<lparr>live := (if p = 0 then live h else (live h)(p := None)),
       freed := freed h @ [(M, p)]\<rparr>"

text \<open>
  Modelled from the spec: \<^verbatim>\<open>memcpy(dst, src, bytes)\<close>, the byte-copy primitive that
  ``transparently bridges host and device address spaces''. The source bytes are read as
  they stood before the call.
\<close>

definition memcpy :: "addr \<Rightarrow> addr \<Rightarrow> size_t \<Rightarrow> heap \<Rightarrow> heap" where
  "memcpy dst src bytes h =
     h\<lparr>mem := (\<lambda>a. if dst \<le> a \<and> a < dst + unat bytes
                    then mem h (src + (a - dst)) else mem h a)\<rparr>"

text \<open>Reading \<open>n\<close> bytes at an address, and writing an object's bytes at an address.\<close>

definition load :: "heap \<Rightarrow> addr \<Rightarrow> nat \<Rightarrow> byte list" where
  "load h p n = map (mem h) [p ..< p + n]"

definition store :: "addr \<Rightarrow> byte list \<Rightarrow> heap \<Rightarrow> heap" where
  "store p bs h =
     h\<lparr>mem := (\<lambda>a. if p \<le> a \<and> a < p + length bs then bs ! (a - p) else mem h a)\<rparr>"

text \<open>
  \<^verbatim>\<open>detail::allocate<T,memory_t>(n)\<close>: the request is \<^verbatim>\<open>n*sizeof(T)\<close> bytes, the
  product taken in \<^verbatim>\<open>size_t\<close>. The element type enters only through \<^verbatim>\<open>sizeof(T)\<close>.
\<close>

definition allocate :: "size_t \<Rightarrow> memory_t \<Rightarrow> size_t \<Rightarrow> heap \<Rightarrow> error + addr \<times> heap" where
  "allocate sizeof_T M n h = memory_allocate M (n * sizeof_T) h"

section \<open>The owning buffer \<^verbatim>\<open>vector<T,memory_t>\<close>\<close>

text \<open>
  \<^verbatim>\<open>std::unique_ptr<T[], void(*)(void*)>\<close>: the owned pointer and the deleter, which
  is the \<^verbatim>\<open>free\<close> of a policy. \<^verbatim>\<open>reset(p)\<close> stores \<open>p\<close> and passes the old pointer
  to the deleter unless it is null.
\<close>

record unique_ptr =
  get :: addr
  get_deleter :: memory_t

definition reset :: "unique_ptr \<Rightarrow> addr \<Rightarrow> heap \<Rightarrow> unique_ptr \<times> heap" where
  "reset u p h =
     (u\<lparr>get := p\<rparr>, if get u \<noteq> 0 then memory_free (get_deleter u) (get u) h else h)"

text \<open>
  The members \<^verbatim>\<open>size_\<close>, \<^verbatim>\<open>capacity_\<close> and \<^verbatim>\<open>data_\<close>; a name cannot end
  in an underscore here, hence the suffix.
\<close>

record vector =
  size_m :: size_t
  capacity_m :: size_t
  data_m :: unique_ptr

text \<open>
  A member function runs on the buffer and the backend state; it returns normally or
  throws, and either way leaves a buffer and a backend state behind.
\<close>

datatype outcome = Returned | Thrown error

type_synonym effect = "outcome \<times> vector \<times> heap"

text \<open>\<^verbatim>\<open>vector() : data_(nullptr, &memory_t::free) {}\<close> with the member initialisers
  \<^verbatim>\<open>size_ = 0\<close> and \<^verbatim>\<open>capacity_ = 0\<close>.\<close>

definition vector_default :: "memory_t \<Rightarrow> vector" where
  "vector_default M = \<lparr>size_m = 0, capacity_m = 0, data_m = \<lparr>get = 0, get_deleter = M\<rparr>\<rparr>"

definition reserve :: "size_t \<Rightarrow> memory_t \<Rightarrow> size_t \<Rightarrow> vector \<Rightarrow> heap \<Rightarrow> effect" where
  "reserve sizeof_T M n v h =
     (if n > capacity_m v
      then (case allocate sizeof_T M n h of
              Inl e \<Rightarrow> (Thrown e, v, h)
            | Inr (p, h1) \<Rightarrow>
                (case reset (data_m v) p h1 of
                   (d, h2) \<Rightarrow> (Returned, v\<lparr>data_m := d, capacity_m := n\<rparr>, h2)))
      else (Returned, v, h))"

definition resize :: "size_t \<Rightarrow> memory_t \<Rightarrow> size_t \<Rightarrow> vector \<Rightarrow> heap \<Rightarrow> effect" where
  "resize sizeof_T M n v h =
     (case reserve sizeof_T M n v h of
        (Thrown e, v1, h1) \<Rightarrow> (Thrown e, v1, h1)
      | (Returned, v1, h1) \<Rightarrow> (Returned, v1\<lparr>size_m := n\<rparr>, h1))"

definition clear :: "vector \<Rightarrow> heap \<Rightarrow> effect" where
  "clear v h = (Returned, v\<lparr>size_m := 0\<rparr>, h)"

text \<open>
  \<^verbatim>\<open>assign(const T *data, size_t size)\<close>: \<^verbatim>\<open>resize(size)\<close>, then
  \<^verbatim>\<open>memcpy(this->data(), data, sizeof(T)*size)\<close>.
\<close>

definition assign :: "size_t \<Rightarrow> memory_t \<Rightarrow> addr \<Rightarrow> size_t \<Rightarrow> vector \<Rightarrow> heap \<Rightarrow> effect" where
  "assign sizeof_T M data n v h =
     (case resize sizeof_T M n v h of
        (Thrown e, v1, h1) \<Rightarrow> (Thrown e, v1, h1)
      | (Returned, v1, h1) \<Rightarrow>
          (Returned, v1, memcpy (get (data_m v1)) data (sizeof_T * n) h1))"

text \<open>
  \<^verbatim>\<open>push_back(const T& v)\<close>. The test is \<^verbatim>\<open>size()+1 > capacity_\<close> in
  \<^verbatim>\<open>size_t\<close>; \<^verbatim>\<open>data_[size_] = v\<close> writes the \<^verbatim>\<open>sizeof(T)\<close> bytes of the value
  at \<^verbatim>\<open>data_ + size_\<close>. The value is given by its bytes.
\<close>

definition element :: "size_t \<Rightarrow> addr \<Rightarrow> size_t \<Rightarrow> addr" where
  "element sizeof_T p idx = p + unat idx * unat sizeof_T"

definition push_back :: "size_t \<Rightarrow> byte list \<Rightarrow> vector \<Rightarrow> heap \<Rightarrow> effect" where
  "push_back sizeof_T val v h =
     (if size_m v + 1 > capacity_m v
      then (Thrown CapacityExceeded, v, h)
      else (Returned, v\<lparr>size_m := size_m v + 1\<rparr>,
            store (element sizeof_T (get (data_m v)) (size_m v)) val h))"

text \<open>\<^verbatim>\<open>swap(vector &rhs)\<close>: three \<^verbatim>\<open>std::swap\<close>s of the members; the result is
  the pair (this, rhs).\<close>

definition swap :: "vector \<Rightarrow> vector \<Rightarrow> heap \<Rightarrow> (vector \<times> vector) \<times> heap" where
  "swap this rhs h =
     ((this\<lparr>size_m := size_m rhs, capacity_m := capacity_m rhs, data_m := data_m rhs\<rparr>,
       rhs\<lparr>size_m := size_m this, capacity_m := capacity_m this, data_m := data_m this\<rparr>), h)"

text \<open>
  The other constructors delegate to \<^verbatim>\<open>vector()\<close> and then run a member function:
  \<^verbatim>\<open>vector(size_t size)\<close> resizes, \<^verbatim>\<open>vector(const T *data, size_t size)\<close> assigns,
  and the converting constructor \<^verbatim>\<open>vector(const vector<T,M> &v)\<close> is
  \<^verbatim>\<open>vector(v.data(), v.size())\<close>, whatever the policy of \<open>v\<close>.
\<close>

definition vector_size :: "size_t \<Rightarrow> memory_t \<Rightarrow> size_t \<Rightarrow> heap \<Rightarrow> effect" where
  "vector_size sizeof_T M n h = resize sizeof_T M n (vector_default M) h"

definition vector_data :: "size_t \<Rightarrow> memory_t \<Rightarrow> addr \<Rightarrow> size_t \<Rightarrow> heap \<Rightarrow> effect" where
  "vector_data sizeof_T M data n h = assign sizeof_T M data n (vector_default M) h"

definition vector_copy :: "size_t \<Rightarrow> memory_t \<Rightarrow> vector \<Rightarrow> heap \<Rightarrow> effect" where
  "vector_copy sizeof_T M v h = vector_data sizeof_T M (get (data_m v)) (size_m v) h"

text \<open>
  \<^verbatim>\<open>vector(const std::initializer_list<T> &data)\<close>, for the host policy only:
  \<^verbatim>\<open>resize(data.size())\<close>, then \<^verbatim>\<open>std::copy\<close> writes the elements one after the
  other from \<^verbatim>\<open>this->data()\<close> on.
\<close>

fun copy_elements :: "size_t \<Rightarrow> addr \<Rightarrow> byte list list \<Rightarrow> heap \<Rightarrow> heap" where
  "copy_elements sizeof_T p [] h = h"
| "copy_elements sizeof_T p (x # xs) h =
     copy_elements sizeof_T (p + unat sizeof_T) xs (store p x h)"

definition vector_initializer_list :: "size_t \<Rightarrow> byte list list \<Rightarrow> heap \<Rightarrow> effect" where
  "vector_initializer_list sizeof_T data h =
     (case resize sizeof_T host_memory_t (of_nat (length data)) (vector_default host_memory_t) h of
        (Thrown e, v1, h1) \<Rightarrow> (Thrown e, v1, h1)
      | (Returned, v1, h1) \<Rightarrow>
          (Returned, v1, copy_elements sizeof_T (get (data_m v1)) data h1))"

text \<open>The buffer an operation leaves behind, and the invariant of the data model.\<close>

definition buffer :: "effect \<Rightarrow> vector" where
  "buffer r = fst (snd r)"

definition invariant :: "vector \<Rightarrow> bool" where
  "invariant v = (size_m v \<le> capacity_m v)"

section \<open>The shared array\<close>

text \<open>
  \<^verbatim>\<open>detail::make_shared<T,memory_t>(n)\<close> allocates and returns
  \<^verbatim>\<open>std::shared_ptr<T>(ptr, &memory_t::free)\<close>. The shared state of a
  \<^verbatim>\<open>std::shared_ptr\<close> is the pointer, the deleter and the number of references; a
  copy adds a reference, the destruction of a reference removes one, and the removal of
  the last one calls the deleter on the pointer.
\<close>

record shared_ptr =
  sp_get :: addr
  sp_deleter :: memory_t
  use_count :: nat

definition make_shared :: "size_t \<Rightarrow> memory_t \<Rightarrow> size_t \<Rightarrow> heap \<Rightarrow> error + shared_ptr \<times> heap" where
  "make_shared sizeof_T M n h =
     (case allocate sizeof_T M n h of
        Inl e \<Rightarrow> Inl e
      | Inr (ptr, h1) \<Rightarrow> Inr (\<lparr>sp_get = ptr, sp_deleter = M, use_count = 1\<rparr>, h1))"

datatype event = Copy | Drop

definition sp_copy :: "shared_ptr \<Rightarrow> heap \<Rightarrow> shared_ptr \<times> heap" where
  "sp_copy s h = (s\<lparr>use_count := Suc (use_count s)\<rparr>, h)"

definition sp_drop :: "shared_ptr \<Rightarrow> heap \<Rightarrow> shared_ptr \<times> heap" where
  "sp_drop s h =
     (if use_count s = 1
      then (s\<lparr>use_count := 0\<rparr>, memory_free (sp_deleter s) (sp_get s) h)
      else (s\<lparr>use_count := use_count s - 1\<rparr>, h))"

text \<open>
  A history of copies and drops of references to one shared state. An event needs a
  reference to act on: there is none once the count is \<open>0\<close>, and such a history is
  \<open>None\<close>.
\<close>

fun run :: "event list \<Rightarrow> shared_ptr \<times> heap \<Rightarrow> (shared_ptr \<times> heap) option" where
  "run [] st = Some st"
| "run (e # es) (s, h) =
     (if use_count s = 0 then None
      else (case e of Copy \<Rightarrow> run es (sp_copy s h) | Drop \<Rightarrow> run es (sp_drop s h)))"

section \<open>The kernel dispatch table\<close>

text \<open>
  \<^verbatim>\<open>std::to_string(int)\<close>: the decimal digits, with a minus sign for a negative
  value.
\<close>

fun to_string_nat :: "nat \<Rightarrow> string" where
  "to_string_nat n =
     (if n < 10 then [''0123456789'' ! n]
      else to_string_nat (n div 10) @ [''0123456789'' ! (n mod 10)])"

declare to_string_nat.simps [simp del]

definition to_string :: "int \<Rightarrow> string" where
  "to_string i = (if i < 0 then CHR ''-'' # to_string_nat (nat (- i)) else to_string_nat (nat i))"

text \<open>
  What a call of \<^verbatim>\<open>make_ab_x_kernel\<close> can end in other than a kernel: the
  \<^verbatim>\<open>parameters_exceed_max_am\<close> exception (a \<^verbatim>\<open>std::domain_error\<close>) with its
  message, the abort of a failed \<^verbatim>\<open>assert\<close>, or an exception of the caller's
  function \<open>f\<close>.
\<close>

datatype 'e failure = ParametersExceedMaxAm string | AssertionFailed | Propagated 'e

text \<open>
  \<^verbatim>\<open>parameters_exceed_max_am(int AB, int X)\<close>. The bounds \<^verbatim>\<open>LMAX\<close> and
  \<^verbatim>\<open>XMAX\<close> are constants of \<^verbatim>\<open>libintx/config.h\<close> and are parameters here. The
  adjacent string literals are concatenated as the compiler does.
\<close>

definition parameters_exceed_max_am :: "nat \<Rightarrow> nat \<Rightarrow> 32 word \<Rightarrow> 32 word \<Rightarrow> 'e failure" where
  "parameters_exceed_max_am LMAX XMAX AB X =
     ParametersExceedMaxAm
       (''Parameters AB='' @ to_string (sint AB) @
        '' X='' @ to_string (sint X) @
        ''exceed LIBINTX_MAX_L='' @ to_string (int LMAX) @
        '' LIBINTX_MAX_X='' @ to_string (int XMAX))"

text \<open>\<^verbatim>\<open>std::make_index_sequence<N>\<close> is the sequence \<open>0, \<dots>, N - 1\<close>.\<close>

definition make_index_sequence :: "nat \<Rightarrow> nat list" where
  "make_index_sequence N = [0 ..< N]"

text \<open>
  Modelled from the spec: \<^verbatim>\<open>make_array\<close> of \<^verbatim>\<open>libintx/array.h\<close>, which builds
  ``a two-dimensional table \<dots>, one entry per \<open>(AB, X)\<close>'', the entry being what the
  generator returns for the two compile-time constants.
\<close>

definition make_array :: "(nat \<Rightarrow> nat \<Rightarrow> 'a) \<Rightarrow> nat list \<Rightarrow> nat list \<Rightarrow> 'a list list" where
  "make_array g ABs Xs = map (\<lambda>AB. map (\<lambda>X. g AB X) Xs) ABs"

text \<open>
  The overload of \<^verbatim>\<open>make_ab_x_kernel\<close> that takes the two index sequences. A
  \<^verbatim>\<open>Kernel\<close> is a nullable handle: \<open>None\<close> is the null kernel. The function \<open>f\<close>
  returns a kernel or throws. The \<^verbatim>\<open>size_t\<close> arguments are converted to \<^verbatim>\<open>int\<close>
  for the exception.
\<close>

definition make_ab_x_kernel_seq ::
  "nat \<Rightarrow> nat \<Rightarrow> (nat \<Rightarrow> nat \<Rightarrow> 'e + 'k option) \<Rightarrow> size_t \<Rightarrow> size_t \<Rightarrow> nat list \<Rightarrow> nat list
    \<Rightarrow> 'e failure + 'k option" where
  "make_ab_x_kernel_seq LMAX XMAX f AB X ABs Xs =
     (let kernel_table = make_array (\<lambda>AB X. (\<lambda>u :: unit. f AB X)) ABs Xs
      in if unat AB < length ABs \<and> unat X < length Xs
         then (case (kernel_table ! unat AB ! unat X) () of
                 Inl e \<Rightarrow> Inl (Propagated e)
               | Inr kern \<Rightarrow> Inr kern)
         else Inl (parameters_exceed_max_am LMAX XMAX (ucast AB) (ucast X)))"

text \<open>
  \<^verbatim>\<open>make_ab_x_kernel(f, AB, X)\<close>. \<^verbatim>\<open>assert(kernel)\<close> aborts unless the build
  defines \<^verbatim>\<open>NDEBUG\<close>; the test that follows it throws on a null kernel.
\<close>

definition make_ab_x_kernel ::
  "bool \<Rightarrow> nat \<Rightarrow> nat \<Rightarrow> (nat \<Rightarrow> nat \<Rightarrow> 'e + 'k option) \<Rightarrow> size_t \<Rightarrow> size_t
    \<Rightarrow> 'e failure + 'k option" where
  "make_ab_x_kernel NDEBUG LMAX XMAX f AB X =
     (case make_ab_x_kernel_seq LMAX XMAX f AB X
             (make_index_sequence (LMAX * 2 + 1)) (make_index_sequence (XMAX + 1)) of
        Inl e \<Rightarrow> Inl e
      | Inr kern \<Rightarrow>
          if \<not> NDEBUG \<and> kern = None then Inl AssertionFailed
          else if kern = None
            then Inl (parameters_exceed_max_am LMAX XMAX (ucast AB) (ucast X))
            else Inr kern)"

section \<open>Sample states\<close>

text \<open>
  A backend with zeroed memory that serves every request of at most 4096 bytes, a buffer
  of 8-byte elements with room for two and holding one, and the same buffer when full.
\<close>

definition heap0 :: heap where
  "heap0 = \<lparr>mem = (\<lambda>a. 0), live = Map.empty, brk = 0, freed = [],
            grant = (\<lambda>M bytes. bytes \<le> 4096)\<rparr>"

definition one_of_two :: vector where
  "one_of_two = \<lparr>size_m = 1, capacity_m = 2, data_m = \<lparr>get = 1, get_deleter = host_memory_t\<rparr>\<rparr>"

definition two_of_two :: vector where
  "two_of_two = \<lparr>size_m = 2, capacity_m = 2, data_m = \<lparr>get = 1, get_deleter = host_memory_t\<rparr>\<rparr>"

text \<open>
  The backend once the storage of that buffer has been allocated, its first element
  holding the byte 7 eight times.
\<close>

definition heap1 :: heap where
  "heap1 = \<lparr>mem = (\<lambda>a. if 1 \<le> a \<and> a < 9 then 7 else 0),
            live = [1 \<mapsto> (host_memory_t, 16)], brk = 17, freed = [],
            grant = (\<lambda>M bytes. bytes \<le> 4096)\<rparr>"

text \<open>
  Two functions a caller may pass to \<^verbatim>\<open>make_ab_x_kernel\<close>: one that has no kernel
  for any pair and returns null, and one whose kernel records the two constants it was
  built with.
\<close>

definition no_kernel :: "nat \<Rightarrow> nat \<Rightarrow> unit + (nat \<times> nat) option" where
  "no_kernel AB X = Inr None"

definition kernel_of :: "nat \<Rightarrow> nat \<Rightarrow> unit + (nat \<times> nat) option" where
  "kernel_of AB X = Inr (Some (AB, X))"

section \<open>Arithmetic of \<^verbatim>\<open>size_t\<close>\<close>

lemma unat_plus_one: "(x :: size_t) \<noteq> - 1 \<Longrightarrow> unat (x + 1) = Suc (unat x)"
proof -
  assume "x \<noteq> - 1"
  then have "1 + x \<noteq> 0"
    by (simp add: add_eq_0_iff)
  then have "unat (1 + x) = Suc (unat x)"
    by (rule unatSuc)
  then show ?thesis
    by (simp add: add.commute)
qed

lemma size_plus_one_gt: "((x :: size_t) + 1 > c) = (c \<le> x \<and> x \<noteq> - 1)"
proof (cases "x = - 1")
  case True
  then show ?thesis by simp
next
  case False
  then show ?thesis
    by (simp add: word_less_nat_alt word_le_nat_alt unat_plus_one less_Suc_eq_le)
qed

lemma max_size_le: "((- 1 :: size_t) \<le> c) = (c = - 1)"
  by (simp add: word_order.extremum_unique)

section \<open>Memory\<close>

lemma load_store: "load (store p bs h) p (length bs) = bs"
  by (auto simp: load_def store_def intro!: nth_equalityI)

lemma store_frame:
  "live (store p bs h) = live h \<and> brk (store p bs h) = brk h
   \<and> freed (store p bs h) = freed h \<and> grant (store p bs h) = grant h"
  by (simp add: store_def)

lemma store_elsewhere: "a < p \<or> p + length bs \<le> a \<Longrightarrow> mem (store p bs h) a = mem h a"
  by (auto simp: store_def)

section \<open>\<^verbatim>\<open>push_back\<close>\<close>

text \<open>
  The test \<^verbatim>\<open>size()+1 > capacity_\<close> wraps at the largest \<^verbatim>\<open>size_t\<close>: the call
  throws exactly when the size has reached the capacity and is not \<open>2\<^sup>6\<^sup>4 - 1\<close>.
\<close>

lemma push_back_throws_iff:
  "(fst (push_back sizeof_T val v h) = Thrown CapacityExceeded)
     = (capacity_m v \<le> size_m v \<and> size_m v \<noteq> - 1)"
  by (simp add: push_back_def size_plus_one_gt)

text \<open>
  C2. A buffer satisfies \<open>size \<le> capacity\<close>, and its capacity counts elements of
  allocated storage, so it is below the largest \<^verbatim>\<open>size_t\<close>. On such a buffer
  \<^verbatim>\<open>push_back(v)\<close> throws the capacity-exceeded error exactly when
  \<open>size = capacity\<close>, and then the buffer and the backend state (storage included) are
  what they were. Otherwise it returns, the bytes of \<open>v\<close> are at \<^verbatim>\<open>data_[size_]\<close>,
  no other byte of memory has changed, size has grown by exactly one, and capacity, the
  storage pointer and the set of live blocks are unchanged.
\<close>

theorem push_back_capacity_exceeded:
  assumes "size_m v \<le> capacity_m v" and "capacity_m v \<noteq> - 1"
  shows "(fst (push_back sizeof_T val v h) = Thrown CapacityExceeded) = (size_m v = capacity_m v)
    \<and> (size_m v = capacity_m v \<longrightarrow> push_back sizeof_T val v h = (Thrown CapacityExceeded, v, h))
    \<and> (size_m v \<noteq> capacity_m v \<longrightarrow>
         (\<exists>v' h'. push_back sizeof_T val v h = (Returned, v', h')
            \<and> unat (size_m v') = unat (size_m v) + 1
            \<and> capacity_m v' = capacity_m v \<and> data_m v' = data_m v
            \<and> load h' (element sizeof_T (get (data_m v)) (size_m v)) (length val) = val
            \<and> (\<forall>a. a < element sizeof_T (get (data_m v)) (size_m v)
                     \<or> element sizeof_T (get (data_m v)) (size_m v) + length val \<le> a
                  \<longrightarrow> mem h' a = mem h a)
            \<and> live h' = live h \<and> freed h' = freed h \<and> brk h' = brk h))"
proof (cases "size_m v = capacity_m v")
  case True
  with assms(2) have "capacity_m v < size_m v + 1"
    by (simp add: size_plus_one_gt)
  with True show ?thesis
    by (simp add: push_back_def)
next
  case False
  with assms(1) have ne: "size_m v \<noteq> - 1" and "\<not> capacity_m v < size_m v + 1"
    by (auto simp: size_plus_one_gt max_size_le)
  with False show ?thesis
    by (simp add: push_back_def unat_plus_one load_store store_frame store_elsewhere)
qed

theorem push_back_capacity_exceeded_witness:
  "size_m two_of_two \<le> capacity_m two_of_two \<and> capacity_m two_of_two \<noteq> - 1
   \<and> size_m two_of_two = capacity_m two_of_two
   \<and> push_back 8 [1, 2, 3, 4, 5, 6, 7, 8] two_of_two heap0
       = (Thrown CapacityExceeded, two_of_two, heap0)
   \<and> size_m one_of_two \<le> capacity_m one_of_two \<and> capacity_m one_of_two \<noteq> - 1
   \<and> size_m one_of_two \<noteq> capacity_m one_of_two
   \<and> fst (push_back 8 [1, 2, 3, 4, 5, 6, 7, 8] one_of_two heap0) \<noteq> Thrown CapacityExceeded
   \<and> buffer (push_back 8 [1, 2, 3, 4, 5, 6, 7, 8] one_of_two heap0) = two_of_two"
  using push_back_capacity_exceeded [of two_of_two 8 "[1, 2, 3, 4, 5, 6, 7, 8]" heap0]
    push_back_capacity_exceeded [of one_of_two 8 "[1, 2, 3, 4, 5, 6, 7, 8]" heap0]
  by (simp add: two_of_two_def one_of_two_def push_back_def buffer_def)

section \<open>\<^verbatim>\<open>reserve\<close> and \<^verbatim>\<open>resize\<close>\<close>

lemma unat_elements:
  "unat (n :: size_t) * unat (sizeof_T :: size_t) < 2 ^ 64
     \<Longrightarrow> unat (n * sizeof_T) = unat n * unat sizeof_T"
  using unat_mult_lem [of n sizeof_T] by simp

text \<open>What \<^verbatim>\<open>reserve\<close> does, with the backend and \<^verbatim>\<open>reset\<close> unfolded.\<close>

lemma reserve_cases:
  "reserve sizeof_T M n v h =
     (if capacity_m v < n
      then if grant h M (unat (n * sizeof_T))
           then (Returned,
                 v\<lparr>data_m := (data_m v)\<lparr>get := Suc (brk h)\<rparr>, capacity_m := n\<rparr>,
                 (if get (data_m v) \<noteq> 0
                  then memory_free (get_deleter (data_m v)) (get (data_m v)) else id)
                   (h\<lparr>live := (live h)(Suc (brk h) \<mapsto> (M, unat (n * sizeof_T))),
                      brk := Suc (brk h) + unat (n * sizeof_T)\<rparr>))
           else (Thrown AllocationFailure, v, h)
      else (Returned, v, h))"
  by (simp add: reserve_def allocate_def memory_allocate_def reset_def)

lemma reserve_Returned_capacity:
  "reserve sizeof_T M n v h = (Returned, v', h') \<Longrightarrow> n \<le> capacity_m v'"
  by (auto simp: reserve_cases split: if_splits)

lemma reserve_invariant:
  "invariant v \<Longrightarrow> invariant (buffer (reserve sizeof_T M n v h))"
  by (auto simp: reserve_cases invariant_def buffer_def)

lemma reserve_capacity:
  "capacity_m v \<le> capacity_m (buffer (reserve sizeof_T M n v h))"
  by (auto simp: reserve_cases buffer_def)

lemma resize_invariant:
  "invariant v \<Longrightarrow> invariant (buffer (resize sizeof_T M n v h))"
  by (auto simp: resize_def reserve_cases invariant_def buffer_def)

lemma resize_capacity:
  "capacity_m v \<le> capacity_m (buffer (resize sizeof_T M n v h))"
  by (auto simp: resize_def reserve_cases buffer_def)

lemma resize_Returned:
  "resize sizeof_T M n v h = (Returned, v', h') \<Longrightarrow> size_m v' = n \<and> mem h' = mem h"
  by (auto simp: resize_def reserve_cases memory_free_def split: if_splits)

lemma resize_returns_iff:
  "(fst (resize sizeof_T M n v h) = Returned)
     = (n \<le> capacity_m v \<or> grant h M (unat (n * sizeof_T)))"
  by (auto simp: resize_def reserve_cases)

text \<open>
  C4. \<^verbatim>\<open>reserve(n)\<close> with \<open>n \<le> capacity\<close> changes neither the buffer nor the
  backend state. Let \<open>n > capacity\<close> and let the \<^verbatim>\<open>n*sizeof(T)\<close> bytes of \<open>n\<close>
  elements fit \<^verbatim>\<open>size_t\<close>. When the backend refuses the request, \<^verbatim>\<open>reserve(n)\<close>
  throws the backend's allocation failure and changes nothing. When the backend serves
  it (and the buffer's storage came from the backend), the buffer's storage is a new
  block of the policy with room for \<open>n\<close> elements; no byte of memory is written, so
  the new storage holds what memory held there and not the old contents; the old block,
  if there was one, is passed to the deleter once and is no longer live; capacity is
  \<open>n\<close>, and size and the deleter are unchanged. After \<^verbatim>\<open>reserve(n1)\<close> and
  \<^verbatim>\<open>reserve(n2)\<close> have returned, capacity is at least \<open>n2\<close> (and at least \<open>n1\<close>),
  in whatever order \<open>n1\<close> and \<open>n2\<close> are.
\<close>

theorem reserve_regrows:
  "(n \<le> capacity_m v \<longrightarrow> reserve sizeof_T M n v h = (Returned, v, h))
   \<and> (capacity_m v < n \<and> unat n * unat sizeof_T < 2 ^ 64
        \<and> \<not> grant h M (unat n * unat sizeof_T) \<longrightarrow>
        reserve sizeof_T M n v h = (Thrown AllocationFailure, v, h))
   \<and> (capacity_m v < n \<and> unat n * unat sizeof_T < 2 ^ 64
        \<and> grant h M (unat n * unat sizeof_T) \<and> get (data_m v) \<le> brk h \<longrightarrow>
        (\<exists>v' h'. reserve sizeof_T M n v h = (Returned, v', h')
           \<and> capacity_m v' = n \<and> size_m v' = size_m v
           \<and> get_deleter (data_m v') = get_deleter (data_m v)
           \<and> get (data_m v') = Suc (brk h) \<and> get (data_m v') \<noteq> get (data_m v)
           \<and> live h' (get (data_m v')) = Some (M, unat n * unat sizeof_T)
           \<and> live h' = (if get (data_m v) = 0
                         then (live h)(Suc (brk h) \<mapsto> (M, unat n * unat sizeof_T))
                         else ((live h)(Suc (brk h) \<mapsto> (M, unat n * unat sizeof_T)))
                                (get (data_m v) := None))
           \<and> brk h' = Suc (brk h) + unat n * unat sizeof_T \<and> grant h' = grant h
           \<and> mem h' = mem h
           \<and> (\<forall>k. load h' (get (data_m v')) k = load h (Suc (brk h)) k)
           \<and> freed h' = freed h @ (if get (data_m v) = 0 then []
                                    else [(get_deleter (data_m v), get (data_m v))])
           \<and> (get (data_m v) \<noteq> 0 \<longrightarrow> live h' (get (data_m v)) = None)))
   \<and> (\<forall>v1 h1 v2 h2. reserve sizeof_T M n1 v h = (Returned, v1, h1)
          \<and> reserve sizeof_T M n2 v1 h1 = (Returned, v2, h2)
          \<longrightarrow> n1 \<le> capacity_m v2 \<and> n2 \<le> capacity_m v2)"
proof -
  have keep: "n \<le> capacity_m v \<longrightarrow> reserve sizeof_T M n v h = (Returned, v, h)"
    by (auto simp: reserve_cases)
  have fail: "reserve sizeof_T M n v h = (Thrown AllocationFailure, v, h)"
    if "capacity_m v < n" "unat n * unat sizeof_T < 2 ^ 64"
      "\<not> grant h M (unat n * unat sizeof_T)"
    using that by (simp add: reserve_cases unat_elements)
  have grow: "\<exists>v' h'. reserve sizeof_T M n v h = (Returned, v', h')
           \<and> capacity_m v' = n \<and> size_m v' = size_m v
           \<and> get_deleter (data_m v') = get_deleter (data_m v)
           \<and> get (data_m v') = Suc (brk h) \<and> get (data_m v') \<noteq> get (data_m v)
           \<and> live h' (get (data_m v')) = Some (M, unat n * unat sizeof_T)
           \<and> live h' = (if get (data_m v) = 0
                         then (live h)(Suc (brk h) \<mapsto> (M, unat n * unat sizeof_T))
                         else ((live h)(Suc (brk h) \<mapsto> (M, unat n * unat sizeof_T)))
                                (get (data_m v) := None))
           \<and> brk h' = Suc (brk h) + unat n * unat sizeof_T \<and> grant h' = grant h
           \<and> mem h' = mem h
           \<and> (\<forall>k. load h' (get (data_m v')) k = load h (Suc (brk h)) k)
           \<and> freed h' = freed h @ (if get (data_m v) = 0 then []
                                    else [(get_deleter (data_m v), get (data_m v))])
           \<and> (get (data_m v) \<noteq> 0 \<longrightarrow> live h' (get (data_m v)) = None)"
    if "capacity_m v < n" "unat n * unat sizeof_T < 2 ^ 64"
      "grant h M (unat n * unat sizeof_T)" "get (data_m v) \<le> brk h"
    using that by (auto simp: reserve_cases memory_free_def load_def unat_elements)
  have twice: "n1 \<le> capacity_m v2 \<and> n2 \<le> capacity_m v2"
    if "reserve sizeof_T M n1 v h = (Returned, v1, h1)"
      "reserve sizeof_T M n2 v1 h1 = (Returned, v2, h2)" for v1 h1 v2 h2
  proof -
    from that(1) have "n1 \<le> capacity_m v1" by (rule reserve_Returned_capacity)
    moreover from that(2) have "capacity_m v1 \<le> capacity_m v2"
      by (auto simp: reserve_cases split: if_splits)
    moreover from that(2) have "n2 \<le> capacity_m v2" by (rule reserve_Returned_capacity)
    ultimately show ?thesis by simp
  qed
  from keep fail grow twice show ?thesis by blast
qed

theorem reserve_regrows_witness:
  "capacity_m one_of_two < 3 \<and> unat (3 :: size_t) * unat (8 :: size_t) < 2 ^ 64
   \<and> grant heap1 host_memory_t (unat (3 :: size_t) * unat (8 :: size_t))
   \<and> get (data_m one_of_two) \<le> brk heap1
   \<and> fst (reserve 8 host_memory_t 3 one_of_two heap1) = Returned
   \<and> capacity_m (buffer (reserve 8 host_memory_t 3 one_of_two heap1)) = 3
   \<and> get (data_m (buffer (reserve 8 host_memory_t 3 one_of_two heap1))) = 18
   \<and> live (snd (snd (reserve 8 host_memory_t 3 one_of_two heap1))) 18 = Some (host_memory_t, 24)
   \<and> freed (snd (snd (reserve 8 host_memory_t 3 one_of_two heap1))) = [(host_memory_t, 1)]
   \<and> mem (snd (snd (reserve 8 host_memory_t 3 one_of_two heap1))) 18 = 0
   \<and> mem heap1 1 = 7
   \<and> (2 :: size_t) \<le> capacity_m one_of_two
   \<and> reserve 8 host_memory_t 2 one_of_two heap1 = (Returned, one_of_two, heap1)
   \<and> capacity_m one_of_two < 1000 \<and> unat (1000 :: size_t) * unat (8 :: size_t) < 2 ^ 64
   \<and> \<not> grant heap1 host_memory_t (unat (1000 :: size_t) * unat (8 :: size_t))
   \<and> reserve 8 host_memory_t 1000 one_of_two heap1 = (Thrown AllocationFailure, one_of_two, heap1)
   \<and> fst (reserve 8 host_memory_t 5 (buffer (reserve 8 host_memory_t 3 one_of_two heap1))
            (snd (snd (reserve 8 host_memory_t 3 one_of_two heap1)))) = Returned
   \<and> capacity_m (buffer (reserve 8 host_memory_t 5
                        (buffer (reserve 8 host_memory_t 3 one_of_two heap1))
                        (snd (snd (reserve 8 host_memory_t 3 one_of_two heap1))))) = 5"
  using reserve_regrows [of 3 one_of_two 8 host_memory_t heap1 3 5]
    reserve_regrows [of 2 one_of_two 8 host_memory_t heap1]
    reserve_regrows [of 1000 one_of_two 8 host_memory_t heap1]
  by (simp add: one_of_two_def heap1_def reserve_cases buffer_def memory_free_def)

text \<open>
  Without the bound on \<^verbatim>\<open>n*sizeof(T)\<close> the block need not hold \<open>n\<close> elements:
  \<^verbatim>\<open>detail::allocate\<close> multiplies in \<^verbatim>\<open>size_t\<close> and checks nothing. For 8-byte
  elements and \<open>n = 2\<^sup>6\<^sup>1\<close> the product is \<open>0\<close>: \<^verbatim>\<open>reserve\<close> returns with capacity
  \<open>2\<^sup>6\<^sup>1\<close> over a block of no bytes.
\<close>

theorem reserve_wraps_counterexample:
  "capacity_m one_of_two < 2305843009213693952
   \<and> fst (reserve 8 host_memory_t 2305843009213693952 one_of_two heap1) = Returned
   \<and> capacity_m (buffer (reserve 8 host_memory_t 2305843009213693952 one_of_two heap1))
       = 2305843009213693952
   \<and> live (snd (snd (reserve 8 host_memory_t 2305843009213693952 one_of_two heap1)))
        (get (data_m (buffer (reserve 8 host_memory_t 2305843009213693952 one_of_two heap1))))
       = Some (host_memory_t, 0)"
  by (simp add: one_of_two_def heap1_def reserve_cases buffer_def memory_free_def)

text \<open>
  C5. \<^verbatim>\<open>resize(n)\<close> returns unless it had to allocate and the backend refused; when
  it returns, size is \<open>n\<close> and capacity is at least \<open>n\<close>. When it throws, the error
  is the backend's allocation failure and nothing has changed.
\<close>

theorem resize_establishes:
  "(case resize sizeof_T M n v h of
      (Returned, v', h') \<Rightarrow> size_m v' = n \<and> n \<le> capacity_m v'
    | (Thrown e, v', h') \<Rightarrow> e = AllocationFailure \<and> v' = v \<and> h' = h)
   \<and> (fst (resize sizeof_T M n v h) = Returned)
       = (n \<le> capacity_m v \<or> grant h M (unat (n * sizeof_T)))"
  by (auto simp: resize_def reserve_cases)

section \<open>\<^verbatim>\<open>clear\<close>, \<^verbatim>\<open>swap\<close> and the default constructor\<close>

text \<open>
  C9. \<^verbatim>\<open>clear()\<close> returns with size \<open>0\<close>; capacity, the storage pointer with its
  deleter, and the whole backend state (memory bytes, live blocks, log of frees) are
  unchanged.
\<close>

theorem clear_resets_size:
  "fst (clear v h) = Returned \<and> size_m (buffer (clear v h)) = 0
   \<and> capacity_m (buffer (clear v h)) = capacity_m v
   \<and> data_m (buffer (clear v h)) = data_m v
   \<and> snd (snd (clear v h)) = h"
  by (simp add: clear_def buffer_def)

text \<open>
  C7. \<^verbatim>\<open>a.swap(b)\<close> leaves in \<open>a\<close> the size, capacity and storage of \<open>b\<close> and in
  \<open>b\<close> those of \<open>a\<close>, and leaves the backend state alone; doing it twice restores
  both buffers.
\<close>

theorem swap_exchanges:
  "swap a b h = ((b, a), h)
   \<and> size_m (fst (fst (swap a b h))) = size_m b \<and> size_m (snd (fst (swap a b h))) = size_m a
   \<and> capacity_m (fst (fst (swap a b h))) = capacity_m b
   \<and> capacity_m (snd (fst (swap a b h))) = capacity_m a
   \<and> data_m (fst (fst (swap a b h))) = data_m b \<and> data_m (snd (fst (swap a b h))) = data_m a
   \<and> (case swap a b h of ((a1, b1), h1) \<Rightarrow> swap a1 b1 h1) = ((a, b), h)"
  by (simp add: swap_def)

text \<open>
  C10. A default-constructed buffer has size \<open>0\<close>, capacity \<open>0\<close> and null storage,
  and \<^verbatim>\<open>push_back\<close> on it throws the capacity-exceeded error and leaves the buffer
  and the backend state unchanged.
\<close>

theorem default_vector_push_back:
  "size_m (vector_default M) = 0 \<and> capacity_m (vector_default M) = 0
   \<and> get (data_m (vector_default M)) = 0
   \<and> push_back sizeof_T val (vector_default M) h
       = (Thrown CapacityExceeded, vector_default M, h)"
  by (simp add: vector_default_def push_back_def)

section \<open>The invariant\<close>

lemma invariant_vector_default: "invariant (vector_default M)"
  by (simp add: invariant_def vector_default_def)

lemma buffer_assign:
  "buffer (assign sizeof_T M data n v h) = buffer (resize sizeof_T M n v h)"
  by (simp add: assign_def buffer_def split: prod.splits outcome.splits)

lemma buffer_vector_initializer_list:
  "buffer (vector_initializer_list sizeof_T data h)
     = buffer (resize sizeof_T host_memory_t (of_nat (length data))
                (vector_default host_memory_t) h)"
  by (simp add: vector_initializer_list_def buffer_def split: prod.splits outcome.splits)

lemma push_back_invariant:
  assumes "invariant v"
  shows "invariant (buffer (push_back sizeof_T val v h))"
proof (cases "capacity_m v < size_m v + 1")
  case True
  with assms show ?thesis
    by (simp add: push_back_def buffer_def)
next
  case False
  then have "size_m v + 1 \<le> capacity_m v"
    by simp
  with False show ?thesis
    by (simp add: push_back_def buffer_def invariant_def)
qed

lemma push_back_capacity:
  "capacity_m (buffer (push_back sizeof_T val v h)) = capacity_m v"
  by (simp add: push_back_def buffer_def)

text \<open>
  C3. Every constructor yields a buffer with \<open>size \<le> capacity\<close>; \<^verbatim>\<open>reserve\<close>,
  \<^verbatim>\<open>resize\<close>, \<^verbatim>\<open>clear\<close>, \<^verbatim>\<open>assign\<close> and \<^verbatim>\<open>push_back\<close> leave a buffer
  with \<open>size \<le> capacity\<close> when they start from one, whether they return or throw, and
  \<^verbatim>\<open>swap\<close> leaves two when it starts from two. None of the five member functions
  other than \<^verbatim>\<open>swap\<close> leaves a capacity below the one it found.
\<close>

theorem size_le_capacity_preserved:
  "invariant (vector_default M)
   \<and> invariant (buffer (vector_size sizeof_T M n h))
   \<and> invariant (buffer (vector_data sizeof_T M p n h))
   \<and> invariant (buffer (vector_copy sizeof_T M w h))
   \<and> invariant (buffer (vector_initializer_list sizeof_T xs h))
   \<and> (invariant v \<longrightarrow>
         invariant (buffer (reserve sizeof_T M n v h))
       \<and> invariant (buffer (resize sizeof_T M n v h))
       \<and> invariant (buffer (clear v h))
       \<and> invariant (buffer (assign sizeof_T M p n v h))
       \<and> invariant (buffer (push_back sizeof_T val v h)))
   \<and> (invariant a \<and> invariant b \<longrightarrow>
         invariant (fst (fst (swap a b h))) \<and> invariant (snd (fst (swap a b h))))
   \<and> capacity_m v \<le> capacity_m (buffer (reserve sizeof_T M n v h))
   \<and> capacity_m v \<le> capacity_m (buffer (resize sizeof_T M n v h))
   \<and> capacity_m v \<le> capacity_m (buffer (clear v h))
   \<and> capacity_m v \<le> capacity_m (buffer (assign sizeof_T M p n v h))
   \<and> capacity_m v \<le> capacity_m (buffer (push_back sizeof_T val v h))"
proof -
  have ctor: "invariant (buffer (resize sizeof_T' M' n' (vector_default M') h'))"
    for sizeof_T' M' n' h'
    by (rule resize_invariant) (rule invariant_vector_default)
  have "invariant (buffer (clear v h)) = True" if "invariant v"
    using that by (simp add: clear_def buffer_def invariant_def)
  moreover have "capacity_m (buffer (clear v h)) = capacity_m v"
    by (simp add: clear_def buffer_def)
  moreover have "fst (fst (swap a b h)) = b" "snd (fst (swap a b h)) = a"
    by (simp_all add: swap_def)
  ultimately show ?thesis
    by (simp add: invariant_vector_default vector_size_def vector_data_def vector_copy_def
        buffer_assign buffer_vector_initializer_list ctor reserve_invariant resize_invariant
        push_back_invariant reserve_capacity resize_capacity push_back_capacity)
qed

theorem size_le_capacity_preserved_witness:
  "invariant one_of_two \<and> invariant two_of_two
   \<and> invariant (buffer (reserve 8 host_memory_t 3 one_of_two heap1))
   \<and> invariant (buffer (resize 8 host_memory_t 3 one_of_two heap1))
   \<and> invariant (buffer (clear one_of_two heap1))
   \<and> invariant (buffer (assign 8 host_memory_t 1 3 one_of_two heap1))
   \<and> invariant (buffer (push_back 8 [1, 2, 3, 4, 5, 6, 7, 8] one_of_two heap1))
   \<and> invariant (fst (fst (swap one_of_two two_of_two heap1)))
   \<and> invariant (snd (fst (swap one_of_two two_of_two heap1)))
   \<and> size_m (buffer (resize 8 host_memory_t 3 one_of_two heap1)) = 3
   \<and> capacity_m (buffer (resize 8 host_memory_t 3 one_of_two heap1)) = 3"
  using size_le_capacity_preserved
    [of host_memory_t 8 3 heap1 1 one_of_two "[]" one_of_two "[1, 2, 3, 4, 5, 6, 7, 8]"
      one_of_two two_of_two]
  by (simp add: invariant_def one_of_two_def two_of_two_def heap1_def resize_def reserve_cases
      buffer_def)

section \<open>\<^verbatim>\<open>assign\<close>\<close>

lemma assign_returns_iff:
  "(fst (assign sizeof_T M src n v h) = Returned) = (fst (resize sizeof_T M n v h) = Returned)"
  by (simp add: assign_def split: prod.splits outcome.splits)

lemma load_memcpy:
  "load (memcpy dst src bytes h) (dst + k) m = load h (src + k) m" if "k + m \<le> unat bytes"
proof (rule nth_equalityI)
  show "length (load (memcpy dst src bytes h) (dst + k) m) = length (load h (src + k) m)"
    by (simp add: load_def)
next
  fix i
  assume "i < length (load (memcpy dst src bytes h) (dst + k) m)"
  then have "i < m"
    by (simp add: load_def)
  with that show "load (memcpy dst src bytes h) (dst + k) m ! i = load h (src + k) m ! i"
    by (simp add: load_def memcpy_def add.assoc)
qed

lemma assign_Returned:
  assumes "assign sizeof_T M src n v h = (Returned, v', h')"
  shows "size_m v' = n"
    and "k + m \<le> unat (sizeof_T * n) \<Longrightarrow> load h' (get (data_m v') + k) m = load h (src + k) m"
proof -
  from assms obtain h1 where r: "resize sizeof_T M n v h = (Returned, v', h1)"
    and h': "h' = memcpy (get (data_m v')) src (sizeof_T * n) h1"
    by (auto simp: assign_def split: prod.splits outcome.splits)
  from r show "size_m v' = n"
    by (simp add: resize_Returned)
  from r have m: "mem h1 = mem h"
    by (simp add: resize_Returned)
  assume "k + m \<le> unat (sizeof_T * n)"
  then have "load h' (get (data_m v') + k) m = load h1 (src + k) m"
    unfolding h' by (rule load_memcpy)
  with m show "load h' (get (data_m v') + k) m = load h (src + k) m"
    by (simp add: load_def)
qed

text \<open>Where \<^verbatim>\<open>assign\<close> leaves the storage, the live blocks and the other bytes.\<close>

lemma assign_storage:
  assumes "assign sizeof_T M src n v h = (Returned, v', h')"
  shows "capacity_m v' = (if n \<le> capacity_m v then capacity_m v else n)"
    and "get_deleter (data_m v') = get_deleter (data_m v)"
    and "grant h' = grant h"
    and "n \<le> capacity_m v \<Longrightarrow>
           data_m v' = data_m v \<and> live h' = live h \<and> freed h' = freed h \<and> brk h' = brk h"
    and "capacity_m v < n \<Longrightarrow>
           get (data_m v') = Suc (brk h)
         \<and> brk h' = Suc (brk h) + unat (n * sizeof_T)
         \<and> live h' = (if get (data_m v) = 0
                       then (live h)(Suc (brk h) \<mapsto> (M, unat (n * sizeof_T)))
                       else ((live h)(Suc (brk h) \<mapsto> (M, unat (n * sizeof_T))))
                              (get (data_m v) := None))
         \<and> freed h' = freed h @ (if get (data_m v) = 0 then []
                                  else [(get_deleter (data_m v), get (data_m v))])
         \<and> (get (data_m v) \<le> brk h \<longrightarrow>
               live h' (get (data_m v')) = Some (M, unat (n * sizeof_T)))"
    and "a < get (data_m v') \<or> get (data_m v') + unat (sizeof_T * n) \<le> a \<Longrightarrow> mem h' a = mem h a"
  using assms
  by (auto simp: assign_def resize_def reserve_cases memcpy_def memory_free_def
      split: if_splits)

text \<open>
  C6. Let the source array of \<open>n\<close> elements fit the address space
  (\<^verbatim>\<open>n*sizeof(T)\<close> does not wrap). \<^verbatim>\<open>assign(ptr, n)\<close> returns unless it had to
  allocate and the backend refused. When it returns, the buffer has size \<open>n\<close> and a
  capacity of at least \<open>n\<close>; its storage is the storage it had when that had room for
  \<open>n\<close> elements, and otherwise a new block of the buffer's policy with room for
  \<open>n\<close> elements, the old block having been freed; the \<^verbatim>\<open>size()*sizeof(T)\<close>
  bytes of that storage are the bytes the source array held before the call, and so is
  each element; no byte outside them has changed. The policy of the buffer is arbitrary
  and so is the memory the source lies in. The converting constructor is that
  \<^verbatim>\<open>assign\<close> of the source buffer's data and size on a default-constructed buffer.
\<close>

theorem assign_round_trip:
  assumes "unat n * unat sizeof_T < 2 ^ 64"
  shows "(fst (assign sizeof_T M src n v h) = Returned)
           = (n \<le> capacity_m v \<or> grant h M (unat (n * sizeof_T)))
    \<and> (\<forall>v' h'. assign sizeof_T M src n v h = (Returned, v', h') \<longrightarrow>
          size_m v' = n \<and> n \<le> capacity_m v'
        \<and> capacity_m v' = (if n \<le> capacity_m v then capacity_m v else n)
        \<and> get_deleter (data_m v') = get_deleter (data_m v) \<and> grant h' = grant h
        \<and> (n \<le> capacity_m v \<longrightarrow>
              data_m v' = data_m v \<and> live h' = live h \<and> freed h' = freed h \<and> brk h' = brk h)
        \<and> (capacity_m v < n \<longrightarrow>
              get (data_m v') = Suc (brk h)
            \<and> brk h' = Suc (brk h) + unat n * unat sizeof_T
            \<and> live h' = (if get (data_m v) = 0
                          then (live h)(Suc (brk h) \<mapsto> (M, unat n * unat sizeof_T))
                          else ((live h)(Suc (brk h) \<mapsto> (M, unat n * unat sizeof_T)))
                                 (get (data_m v) := None))
            \<and> freed h' = freed h @ (if get (data_m v) = 0 then []
                                     else [(get_deleter (data_m v), get (data_m v))])
            \<and> (get (data_m v) \<le> brk h \<longrightarrow>
                  live h' (get (data_m v')) = Some (M, unat n * unat sizeof_T)))
        \<and> load h' (get (data_m v')) (unat (size_m v') * unat sizeof_T)
            = load h src (unat n * unat sizeof_T)
        \<and> (\<forall>i < unat n. load h' (element sizeof_T (get (data_m v')) (of_nat i)) (unat sizeof_T)
                         = load h (element sizeof_T src (of_nat i)) (unat sizeof_T))
        \<and> (\<forall>a. a < get (data_m v') \<or> get (data_m v') + unat n * unat sizeof_T \<le> a
                \<longrightarrow> mem h' a = mem h a))
    \<and> vector_copy sizeof_T M w h
         = assign sizeof_T M (get (data_m w)) (size_m w) (vector_default M) h"
proof -
  have bytes: "unat (sizeof_T * n) = unat n * unat sizeof_T"
    using assms by (simp add: unat_elements mult.commute)
  have bytes': "unat (n * sizeof_T) = unat n * unat sizeof_T"
    using assms by (simp add: unat_elements)
  have whole: "load h' (get (data_m v')) (unat (size_m v') * unat sizeof_T)
            = load h src (unat n * unat sizeof_T)"
    if "assign sizeof_T M src n v h = (Returned, v', h')" for v' h'
    using assign_Returned(2) [OF that, of 0 "unat n * unat sizeof_T"]
      assign_Returned(1) [OF that] bytes
    by simp
  have each: "load h' (element sizeof_T (get (data_m v')) (of_nat i)) (unat sizeof_T)
                         = load h (element sizeof_T src (of_nat i)) (unat sizeof_T)"
    if "assign sizeof_T M src n v h = (Returned, v', h')" "i < unat n" for v' h' i
  proof -
    from that(2) have i: "unat (of_nat i :: size_t) = i"
      by (simp add: le_unat_uoi [of i n])
    from that(2) have "i * unat sizeof_T + unat sizeof_T \<le> unat n * unat sizeof_T"
      by (metis Suc_leI mult_Suc mult_le_mono1 add.commute)
    then show ?thesis
      using assign_Returned(2) [OF that(1), of "i * unat sizeof_T" "unat sizeof_T"] bytes i
      by (simp add: element_def)
  qed
  have storage: "n \<le> capacity_m v'
        \<and> capacity_m v' = (if n \<le> capacity_m v then capacity_m v else n)
        \<and> get_deleter (data_m v') = get_deleter (data_m v) \<and> grant h' = grant h
        \<and> (n \<le> capacity_m v \<longrightarrow>
              data_m v' = data_m v \<and> live h' = live h \<and> freed h' = freed h \<and> brk h' = brk h)
        \<and> (capacity_m v < n \<longrightarrow>
              get (data_m v') = Suc (brk h)
            \<and> brk h' = Suc (brk h) + unat n * unat sizeof_T
            \<and> live h' = (if get (data_m v) = 0
                          then (live h)(Suc (brk h) \<mapsto> (M, unat n * unat sizeof_T))
                          else ((live h)(Suc (brk h) \<mapsto> (M, unat n * unat sizeof_T)))
                                 (get (data_m v) := None))
            \<and> freed h' = freed h @ (if get (data_m v) = 0 then []
                                     else [(get_deleter (data_m v), get (data_m v))])
            \<and> (get (data_m v) \<le> brk h \<longrightarrow>
                  live h' (get (data_m v')) = Some (M, unat n * unat sizeof_T)))
        \<and> (\<forall>a. a < get (data_m v') \<or> get (data_m v') + unat n * unat sizeof_T \<le> a
                \<longrightarrow> mem h' a = mem h a)"
    if "assign sizeof_T M src n v h = (Returned, v', h')" for v' h'
    using assign_storage [OF that] bytes bytes' by auto
  have copy: "vector_copy sizeof_T M w h
         = assign sizeof_T M (get (data_m w)) (size_m w) (vector_default M) h"
    by (simp add: vector_copy_def vector_data_def)
  have returns: "(fst (assign sizeof_T M src n v h) = Returned)
           = (n \<le> capacity_m v \<or> grant h M (unat (n * sizeof_T)))"
    by (simp add: assign_returns_iff resize_returns_iff)
  from returns whole each storage copy assign_Returned(1) show ?thesis
    by blast
qed

lemma load_heap1: "load heap1 1 8 = [7, 7, 7, 7, 7, 7, 7, 7]"
  by (simp add: load_def heap1_def upt_rec)

theorem assign_round_trip_witness:
  "unat (1 :: size_t) * unat (8 :: size_t) < 2 ^ 64
   \<and> fst (assign 8 device_memory_t 1 1 (vector_default device_memory_t) heap1) = Returned
   \<and> size_m (buffer (assign 8 device_memory_t 1 1 (vector_default device_memory_t) heap1)) = 1
   \<and> capacity_m (buffer (assign 8 device_memory_t 1 1 (vector_default device_memory_t) heap1)) = 1
   \<and> get (data_m (buffer (assign 8 device_memory_t 1 1 (vector_default device_memory_t) heap1)))
       = 18
   \<and> live (snd (snd (assign 8 device_memory_t 1 1 (vector_default device_memory_t) heap1))) 18
       = Some (device_memory_t, 8)
   \<and> load (snd (snd (assign 8 device_memory_t 1 1 (vector_default device_memory_t) heap1))) 18 8
       = [7, 7, 7, 7, 7, 7, 7, 7]
   \<and> load heap1 18 8 = [0, 0, 0, 0, 0, 0, 0, 0]
   \<and> vector_copy 8 device_memory_t one_of_two heap1
       = assign 8 device_memory_t 1 1 (vector_default device_memory_t) heap1"
proof -
  let ?v = "vector_default device_memory_t"
  let ?r = "assign 8 device_memory_t 1 1 ?v heap1"
  have hyp: "unat (1 :: size_t) * unat (8 :: size_t) < 2 ^ 64"
    by simp
  note t = assign_round_trip [OF hyp, of device_memory_t 1 ?v heap1 one_of_two]
  have "grant heap1 device_memory_t (unat (1 * 8 :: size_t))"
    by (simp add: heap1_def)
  with t have r: "fst ?r = Returned"
    by simp
  then obtain v' h' where e: "?r = (Returned, v', h')"
    by (cases ?r) auto
  have grow: "capacity_m ?v < 1" "get (data_m ?v) \<le> brk heap1" "brk heap1 = 17"
    by (simp_all add: vector_default_def heap1_def)
  from t e have sz: "size_m v' = 1"
    and cap: "capacity_m v' = (if 1 \<le> capacity_m ?v then capacity_m ?v else 1)"
    and ld: "load h' (get (data_m v')) (unat (size_m v') * unat (8 :: size_t))
      = load heap1 1 (unat (1 :: size_t) * unat (8 :: size_t))"
    and new: "capacity_m ?v < 1 \<longrightarrow> get (data_m v') = Suc (brk heap1)
        \<and> (get (data_m ?v) \<le> brk heap1 \<longrightarrow>
              live h' (get (data_m v')) = Some (device_memory_t, unat (1 :: size_t) * unat (8 :: size_t)))"
    by blast+
  from new grow have p: "get (data_m v') = 18"
    by simp
  from new grow p have l: "live h' 18 = Some (device_memory_t, 8)"
    by auto
  from cap grow have c: "capacity_m v' = 1"
    by (simp add: vector_default_def)
  from ld sz p have "load h' 18 8 = load heap1 1 8"
    by simp
  then have b: "load h' 18 8 = [7, 7, 7, 7, 7, 7, 7, 7]"
    by (simp only: load_heap1)
  have z: "load heap1 18 8 = [0, 0, 0, 0, 0, 0, 0, 0]"
    by (simp add: load_def heap1_def upt_rec)
  have "get (data_m one_of_two) = 1" "size_m one_of_two = 1"
    by (simp_all add: one_of_two_def)
  with hyp r e t sz c p l b z show ?thesis
    by (simp add: buffer_def)
qed

section \<open>References to a shared array\<close>

text \<open>
  The log of frees and the count along a history that starts with at least one
  reference to a non-null pointer.
\<close>

lemma run_history:
  "run es (s, h) = Some (s', h') \<Longrightarrow> 0 < use_count s \<Longrightarrow> sp_get s \<noteq> 0 \<Longrightarrow>
     freed h' = freed h @ (if use_count s' = 0 then [(sp_deleter s, sp_get s)] else [])
   \<and> sp_get s' = sp_get s \<and> sp_deleter s' = sp_deleter s
   \<and> live h' (sp_get s) = (if use_count s' = 0 then None else live h (sp_get s))
   \<and> int (use_count s') = int (use_count s) + int (count_list es Copy) - int (count_list es Drop)"
proof (induction es arbitrary: s h)
  case Nil
  then show ?case by simp
next
  case (Cons e es)
  show ?case
  proof (cases e)
    case Copy
    with Cons.prems have "run es (s\<lparr>use_count := Suc (use_count s)\<rparr>, h) = Some (s', h')"
      by (simp add: sp_copy_def)
    from Cons.IH [OF this] Cons.prems Copy show ?thesis by simp
  next
    case Drop
    show ?thesis
    proof (cases "use_count s = 1")
      case True
      with Cons.prems Drop
      have r: "run es (s\<lparr>use_count := 0\<rparr>, memory_free (sp_deleter s) (sp_get s) h) = Some (s', h')"
        by (simp add: sp_drop_def)
      then have "es = []" by (cases es) simp_all
      with r True Drop Cons.prems show ?thesis by (auto simp: memory_free_def)
    next
      case False
      with Cons.prems Drop
      have "run es (s\<lparr>use_count := use_count s - 1\<rparr>, h) = Some (s', h')"
        by (simp add: sp_drop_def)
      from Cons.IH [OF this] Cons.prems Drop False show ?thesis by auto
    qed
  qed
qed

text \<open>
  C8. Let \<^verbatim>\<open>make_shared<T>(n)\<close> of a policy return a shared array, and let any
  history of copies and drops of its references follow. The array starts with one
  reference to a non-null block of that policy; the number of references is one plus the
  copies minus the drops; as long as a reference is left, the policy's \<^verbatim>\<open>free\<close> has
  not been called and the block is live; once the last reference is dropped, exactly one
  call has been logged, it went through the \<^verbatim>\<open>free\<close> of the allocating policy, on
  the allocated pointer, and the block is no longer live.
\<close>

theorem shared_array_freed_once:
  assumes "make_shared sizeof_T M n h = Inr (s, h1)" and "run es (s, h1) = Some (s', h')"
  shows "use_count s = 1 \<and> sp_get s \<noteq> 0 \<and> sp_deleter s = M
    \<and> live h1 (sp_get s) = Some (M, unat (n * sizeof_T)) \<and> freed h1 = freed h
    \<and> int (use_count s') = 1 + int (count_list es Copy) - int (count_list es Drop)
    \<and> freed h' = freed h @ (if use_count s' = 0 then [(M, sp_get s)] else [])
    \<and> live h' (sp_get s) = (if use_count s' = 0 then None else Some (M, unat (n * sizeof_T)))"
proof -
  from assms(1) have s: "s = \<lparr>sp_get = Suc (brk h), sp_deleter = M, use_count = 1\<rparr>"
    and h1: "h1 = h\<lparr>live := (live h)(Suc (brk h) \<mapsto> (M, unat (n * sizeof_T))),
                     brk := Suc (brk h) + unat (n * sizeof_T)\<rparr>"
    by (auto simp: make_shared_def allocate_def memory_allocate_def split: if_splits)
  from s have "0 < use_count s" "sp_get s \<noteq> 0" by simp_all
  from run_history [OF assms(2) this] s h1 show ?thesis by simp
qed

theorem shared_array_freed_once_witness:
  "make_shared 8 device_memory_t 4 heap0
     = Inr (\<lparr>sp_get = 1, sp_deleter = device_memory_t, use_count = 1\<rparr>,
            heap0\<lparr>live := [1 \<mapsto> (device_memory_t, 32)], brk := 33\<rparr>)
   \<and> run [Copy, Drop, Drop]
        (\<lparr>sp_get = 1, sp_deleter = device_memory_t, use_count = 1\<rparr>,
         heap0\<lparr>live := [1 \<mapsto> (device_memory_t, 32)], brk := 33\<rparr>)
     = Some (\<lparr>sp_get = 1, sp_deleter = device_memory_t, use_count = 0\<rparr>,
             heap0\<lparr>live := Map.empty, brk := 33, freed := [(device_memory_t, 1)]\<rparr>)
   \<and> freed (heap0\<lparr>live := Map.empty, brk := 33, freed := [(device_memory_t, 1)]\<rparr>)
     = freed heap0 @ [(device_memory_t, 1)]
   \<and> run [Copy, Drop]
        (\<lparr>sp_get = 1, sp_deleter = device_memory_t, use_count = 1\<rparr>,
         heap0\<lparr>live := [1 \<mapsto> (device_memory_t, 32)], brk := 33\<rparr>)
     = Some (\<lparr>sp_get = 1, sp_deleter = device_memory_t, use_count = 1\<rparr>,
             heap0\<lparr>live := [1 \<mapsto> (device_memory_t, 32)], brk := 33\<rparr>)"
proof -
  let ?s = "\<lparr>sp_get = 1, sp_deleter = device_memory_t, use_count = 1\<rparr>"
  let ?h1 = "heap0\<lparr>live := [1 \<mapsto> (device_memory_t, 32)], brk := 33\<rparr>"
  let ?s' = "\<lparr>sp_get = 1, sp_deleter = device_memory_t, use_count = 0\<rparr>"
  let ?h' = "heap0\<lparr>live := Map.empty, brk := 33, freed := [(device_memory_t, 1)]\<rparr>"
  have m: "make_shared 8 device_memory_t 4 heap0 = Inr (?s, ?h1)"
    by (simp add: make_shared_def allocate_def memory_allocate_def heap0_def)
  have r: "run [Copy, Drop, Drop] (?s, ?h1) = Some (?s', ?h')"
    by (simp add: sp_copy_def sp_drop_def memory_free_def heap0_def)
  have r2: "run [Copy, Drop] (?s, ?h1) = Some (?s, ?h1)"
    by (simp add: sp_copy_def sp_drop_def)
  from shared_array_freed_once [OF m r] have "freed ?h' = freed heap0 @ [(device_memory_t, 1)]"
    by simp
  with m r r2 show ?thesis
    by simp
qed

section \<open>\<^verbatim>\<open>make_ab_x_kernel\<close>\<close>

lemma table_entry:
  "i < length ABs \<Longrightarrow> j < length Xs \<Longrightarrow> make_array g ABs Xs ! i ! j = g (ABs ! i) (Xs ! j)"
  by (simp add: make_array_def)

lemma make_ab_x_kernel_seq_cases:
  "make_ab_x_kernel_seq LMAX XMAX f AB X (make_index_sequence N) (make_index_sequence K) =
     (if unat AB < N \<and> unat X < K
      then (case f (unat AB) (unat X) of Inl e \<Rightarrow> Inl (Propagated e) | Inr kern \<Rightarrow> Inr kern)
      else Inl (parameters_exceed_max_am LMAX XMAX (ucast AB) (ucast X)))"
  by (simp add: make_ab_x_kernel_seq_def make_index_sequence_def table_entry)

text \<open>The conversion of a \<^verbatim>\<open>size_t\<close> below \<open>2\<^sup>3\<^sup>1\<close> to \<^verbatim>\<open>int\<close> keeps its value.\<close>

lemma int_of_size_t:
  assumes "unat (AB :: size_t) < 2 ^ 31"
  shows "sint (ucast AB :: 32 word) = int (unat AB)"
proof -
  have lo: "0 \<le> uint AB"
    by simp
  from assms have hi: "uint AB < 2 ^ 31"
    by (simp add: unat_eq_nat_uint del: nat_uint_eq)
  from hi have "uint AB < 2 ^ 32"
    by simp
  with lo have u: "uint (ucast AB :: 32 word) = uint AB"
    by (simp add: unsigned_ucast_eq take_bit_int_eq_self)
  from lo have "- (2 ^ 31) \<le> uint AB"
    by (rule order_trans [rotated]) simp
  with hi have "signed_take_bit 31 (uint AB) = uint AB"
    by (simp add: signed_take_bit_int_eq_self)
  with u show ?thesis
    by (simp add: sint_uint)
qed

text \<open>
  C1, as the code has it. For \<open>AB \<le> 2 LMAX\<close> and \<open>X \<le> XMAX\<close> the call is the call
  of \<open>f\<close> on exactly these two constants: the kernel \<open>f\<close> returns is returned when it
  is not null, an exception of \<open>f\<close> propagates, and a null kernel ends in the
  \<^verbatim>\<open>parameters_exceed_max_am\<close> exception in a build that defines \<^verbatim>\<open>NDEBUG\<close>
  and in the abort of the failed \<^verbatim>\<open>assert(kernel)\<close>, with no exception thrown, in
  a build that keeps assertions. For every other \<open>AB\<close> or \<open>X\<close> the call throws
  \<^verbatim>\<open>parameters_exceed_max_am\<close>. The message of the exception carries \<open>AB\<close> and
  \<open>X\<close> as converted to \<^verbatim>\<open>int\<close>, which are \<open>AB\<close> and \<open>X\<close> themselves when they
  are below \<open>2\<^sup>3\<^sup>1\<close>, and the two bounds.
\<close>

theorem make_ab_x_kernel_dispatch:
  "make_ab_x_kernel NDEBUG LMAX XMAX (f :: nat \<Rightarrow> nat \<Rightarrow> 'e + 'k option) AB X =
     (if unat AB \<le> 2 * LMAX \<and> unat X \<le> XMAX
      then (case f (unat AB) (unat X) of
              Inl e \<Rightarrow> Inl (Propagated e)
            | Inr None \<Rightarrow>
                if NDEBUG then Inl (parameters_exceed_max_am LMAX XMAX (ucast AB) (ucast X))
                else Inl AssertionFailed
            | Inr (Some k) \<Rightarrow> Inr (Some k))
      else Inl (parameters_exceed_max_am LMAX XMAX (ucast AB) (ucast X)))
   \<and> (unat AB < 2 ^ 31 \<and> unat X < 2 ^ 31 \<longrightarrow>
        (parameters_exceed_max_am LMAX XMAX (ucast AB) (ucast X) :: 'e failure)
          = ParametersExceedMaxAm
              (''Parameters AB='' @ to_string (int (unat AB)) @
               '' X='' @ to_string (int (unat X)) @
               ''exceed LIBINTX_MAX_L='' @ to_string (int LMAX) @
               '' LIBINTX_MAX_X='' @ to_string (int XMAX)))"
proof -
  have "make_ab_x_kernel NDEBUG LMAX XMAX f AB X =
     (if unat AB \<le> 2 * LMAX \<and> unat X \<le> XMAX
      then (case f (unat AB) (unat X) of
              Inl e \<Rightarrow> Inl (Propagated e)
            | Inr None \<Rightarrow>
                if NDEBUG then Inl (parameters_exceed_max_am LMAX XMAX (ucast AB) (ucast X))
                else Inl AssertionFailed
            | Inr (Some k) \<Rightarrow> Inr (Some k))
      else Inl (parameters_exceed_max_am LMAX XMAX (ucast AB) (ucast X)))"
    by (auto simp: make_ab_x_kernel_def make_ab_x_kernel_seq_cases less_Suc_eq_le
        split: sum.splits option.splits)
  moreover have "(parameters_exceed_max_am LMAX XMAX (ucast AB) (ucast X) :: 'e failure)
          = ParametersExceedMaxAm
              (''Parameters AB='' @ to_string (int (unat AB)) @
               '' X='' @ to_string (int (unat X)) @
               ''exceed LIBINTX_MAX_L='' @ to_string (int LMAX) @
               '' LIBINTX_MAX_X='' @ to_string (int XMAX))"
    if "unat AB < 2 ^ 31" "unat X < 2 ^ 31"
    unfolding parameters_exceed_max_am_def int_of_size_t [OF that(1)] int_of_size_t [OF that(2)]
    by (rule refl)
  ultimately show ?thesis
    by blast
qed

theorem make_ab_x_kernel_dispatch_witness:
  "unat (5 :: size_t) < 2 ^ 31 \<and> unat (0 :: size_t) < 2 ^ 31
   \<and> make_ab_x_kernel True 2 3 kernel_of 5 0
       = Inl (ParametersExceedMaxAm
               ''Parameters AB=5 X=0exceed LIBINTX_MAX_L=2 LIBINTX_MAX_X=3'')
   \<and> make_ab_x_kernel True 2 3 kernel_of 4 3 = Inr (Some (4, 3))
   \<and> make_ab_x_kernel True 2 3 kernel_of 4 4
       = Inl (ParametersExceedMaxAm
               ''Parameters AB=4 X=4exceed LIBINTX_MAX_L=2 LIBINTX_MAX_X=3'')
   \<and> make_ab_x_kernel False 2 3 no_kernel 4 3 = Inl AssertionFailed
   \<and> make_ab_x_kernel False 2 3 kernel_of 4 3 = Inr (Some (4, 3))"
  using make_ab_x_kernel_dispatch [of True 2 3 kernel_of 5 0]
    make_ab_x_kernel_dispatch [of True 2 3 kernel_of 4 3]
    make_ab_x_kernel_dispatch [of True 2 3 kernel_of 4 4]
    make_ab_x_kernel_dispatch [of False 2 3 no_kernel 4 3]
    make_ab_x_kernel_dispatch [of False 2 3 kernel_of 4 3]
  by (simp add: kernel_of_def no_kernel_def to_string_def to_string_nat.simps)

text \<open>
  A pair inside the table need not yield a kernel: \<open>(0, 0)\<close> is in range for
  \<open>LMAX = 2\<close> and \<open>XMAX = 3\<close>, and where \<open>f\<close> has no kernel for it the call
  throws, in a build that defines \<^verbatim>\<open>NDEBUG\<close>.
\<close>

theorem make_ab_x_kernel_null_counterexample:
  "unat (0 :: size_t) \<le> 2 * 2 \<and> unat (0 :: size_t) \<le> 3
   \<and> make_ab_x_kernel True 2 3 no_kernel 0 0
       = Inl (ParametersExceedMaxAm
               ''Parameters AB=0 X=0exceed LIBINTX_MAX_L=2 LIBINTX_MAX_X=3'')"
  by (simp add: make_ab_x_kernel_def make_ab_x_kernel_seq_cases no_kernel_def
      parameters_exceed_max_am_def to_string_def to_string_nat.simps)

end
